theory Spec2Isabelle
  imports Main
begin

section \<open>The multi-signature wallet front end: projection store and provider helpers\<close>

text \<open>
  The development embeds two files of the React front end of the multi-signature wallet:
  \<^item> \<^verbatim>\<open>src/contexts/MultiSigWallet.tsx\<close>: the reducer that holds the local copy of the
    wallet (balance, owners, transactions) and the \<^verbatim>\<open>Updater\<close> that turns each contract
    event into one action of that reducer;
  \<^item> \<^verbatim>\<open>src/api/web3.ts\<close>: \<^verbatim>\<open>unlockAccount\<close> and the two polling subscriptions.
\<close>

subsection \<open>JavaScript numbers and \<^verbatim>\<open>parseInt\<close>\<close>

text \<open>
  A transaction index is the result of \<^verbatim>\<open>parseInt\<close>, so it is an integer or \<^verbatim>\<open>NaN\<close>.
  Integers are exact in a JavaScript number up to \<open>2 ^ 53\<close>; the model keeps the
  mathematical integer. The comparison \<^verbatim>\<open>===\<close> is false as soon as one side is \<^verbatim>\<open>NaN\<close>.
\<close>

datatype number = Num int | NaN

fun strict_eq :: "number \<Rightarrow> number \<Rightarrow> bool" where
  "strict_eq (Num a) (Num b) = (a = b)"
| "strict_eq _ _ = False"

text \<open>
  \<^verbatim>\<open>parseInt(string)\<close> with no radix, as ECMAScript defines it: leading white space is
  dropped, then an optional sign, then an optional \<^verbatim>\<open>0x\<close> or \<^verbatim>\<open>0X\<close> (which selects
  radix 16, otherwise 10); the longest run of digits of the radix is the value, and an
  empty run gives \<^verbatim>\<open>NaN\<close>. Characters are bytes here, so only the ASCII white space is
  recognised.
\<close>

definition is_white_space :: "char \<Rightarrow> bool" where
  "is_white_space c =
     (c = CHR 0x09 \<or> c = CHR 0x0A \<or> c = CHR 0x0B \<or> c = CHR 0x0C \<or> c = CHR 0x0D \<or> c = CHR '' '')"

definition digit_of :: "char \<Rightarrow> nat option" where
  "digit_of c =
     (let n = (of_char c :: nat) in
      if 48 \<le> n \<and> n \<le> 57 then Some (n - 48)
      else if 97 \<le> n \<and> n \<le> 102 then Some (n - 87)
      else if 65 \<le> n \<and> n \<le> 70 then Some (n - 55)
      else None)"

definition radix_digit :: "nat \<Rightarrow> char \<Rightarrow> nat option" where
  "radix_digit R c =
     (case digit_of c of None \<Rightarrow> None | Some d \<Rightarrow> if d < R then Some d else None)"

fun leading_digits :: "nat \<Rightarrow> string \<Rightarrow> nat list" where
  "leading_digits R [] = []"
| "leading_digits R (c # cs) =
     (case radix_digit R c of None \<Rightarrow> [] | Some d \<Rightarrow> d # leading_digits R cs)"

definition strip_sign :: "string \<Rightarrow> int \<times> string" where
  "strip_sign S =
     (case S of
        [] \<Rightarrow> (1, S)
      | c # cs \<Rightarrow> if c = CHR ''-'' then (- 1, cs) else if c = CHR ''+'' then (1, cs) else (1, S))"

definition strip_prefix :: "string \<Rightarrow> nat \<times> string" where
  "strip_prefix S =
     (case S of
        c # x # cs \<Rightarrow>
          if c = CHR ''0'' \<and> (x = CHR ''x'' \<or> x = CHR ''X'') then (16, cs) else (10, S)
      | _ \<Rightarrow> (10, S))"

definition parseInt :: "string \<Rightarrow> number" where
  "parseInt inputString =
     (let (sign, S) = strip_sign (dropWhile is_white_space inputString);
          (R, S') = strip_prefix S;
          Z = leading_digits R S'
      in if Z = [] then NaN
         else Num (sign * int (foldl (\<lambda>acc d. acc * R + d) 0 Z)))"

subsection \<open>The state of the projection and its actions\<close>

text \<open>
  The interfaces \<^verbatim>\<open>Transaction\<close> and \<^verbatim>\<open>State\<close>. The field \<^verbatim>\<open>value\<close> of a
  transaction is called \<open>amount\<close> here (\<^verbatim>\<open>value\<close> is a keyword of Isabelle); it is a
  \<^verbatim>\<open>BN\<close> of the library \<^verbatim>\<open>bn.js\<close>, whose representation is the type parameter
  \<open>'bn\<close>. The counters are JavaScript numbers that only ever hold integers.
\<close>

record 'bn Transaction =
  txIndex :: number
  to :: string
  amount :: 'bn
  data :: string
  executed :: bool
  numConfirmations :: int
  isConfirmedByCurrentAccount :: bool

record 'bn State =
  address :: string
  balance :: string
  owners :: "string list"
  numConfirmationsRequired :: int
  transactionCount :: int
  transactions :: "'bn Transaction list"

definition INITIAL_STATE :: "'bn State" where
  "INITIAL_STATE =
     \<lparr>address = '''', balance = ''0'', owners = [], numConfirmationsRequired = 0,
      transactionCount = 0, transactions = []\<rparr>"

text \<open>
  The four actions, with the fields of their \<^verbatim>\<open>data\<close> in the order of the interfaces:
  \<^verbatim>\<open>ADD_TX txIndex to value data\<close> and
  \<^verbatim>\<open>UPDATE_TX account txIndex owner executed confirmed\<close>, the last two optional
  (\<open>None\<close> is \<^verbatim>\<open>undefined\<close>).
\<close>

datatype 'bn Action =
    SET "'bn State"
  | UPDATE_BALANCE string
  | ADD_TX string string string string
  | UPDATE_TX string string string "bool option" "bool option"

subsection \<open>The reducer\<close>

text \<open>
  The callback that \<^verbatim>\<open>UPDATE_TX\<close> maps over the transactions. A record whose index is
  not the one of the action is returned as it is; otherwise a copy is updated: marked
  executed when \<^verbatim>\<open>data.executed\<close> is true, and, when \<^verbatim>\<open>data.confirmed\<close> is defined,
  counted up or down by one with the flag of the current account adjusted.
\<close>

definition update_tx ::
  "string \<Rightarrow> number \<Rightarrow> string \<Rightarrow> bool option \<Rightarrow> bool option \<Rightarrow>
   'bn Transaction \<Rightarrow> 'bn Transaction" where
  "update_tx account idx owner is_executed confirmed tx =
     (if strict_eq (txIndex tx) idx then
        (let updatedTx = tx;
             updatedTx = (if is_executed = Some True then updatedTx\<lparr>executed := True\<rparr>
                          else updatedTx);
             updatedTx =
               (case confirmed of
                  None \<Rightarrow> updatedTx
                | Some True \<Rightarrow>
                    updatedTx\<lparr>numConfirmations := numConfirmations updatedTx + 1,
                               isConfirmedByCurrentAccount := (owner = account)\<rparr>
                | Some False \<Rightarrow>
                    (let updatedTx = updatedTx\<lparr>numConfirmations := numConfirmations updatedTx - 1\<rparr>
                     in if owner = account
                        then updatedTx\<lparr>isConfirmedByCurrentAccount := False\<rparr>
                        else updatedTx))
         in updatedTx)
      else tx)"

text \<open>
  \<^verbatim>\<open>reducer(state, action)\<close>. The library function \<^verbatim>\<open>Web3.utils.toBN\<close> is not part of
  the repository: it is the parameter \<open>toBN\<close>, which returns the converted amount or the
  exception it throws (\<open>Inl\<close>). That exception is the only way the reducer fails; the
  other three actions always return a state. \<^verbatim>\<open>SET\<close> spreads \<^verbatim>\<open>action.data\<close> over the
  state, and the data has all six fields of the state, so the result is the data.
\<close>

fun reducer :: "(string \<Rightarrow> 'e + 'bn) \<Rightarrow> 'bn State \<Rightarrow> 'bn Action \<Rightarrow> 'e + 'bn State" where
  "reducer toBN state (SET d) = Inr d"
| "reducer toBN state (UPDATE_BALANCE b) = Inr (state\<lparr>balance := b\<rparr>)"
| "reducer toBN state (ADD_TX idx to_addr val dat) =
     (case toBN val of
        Inl e \<Rightarrow> Inl e
      | Inr v \<Rightarrow>
          Inr (state\<lparr>transactionCount := transactionCount state + 1,
                     transactions :=
                       \<lparr>txIndex = parseInt idx, to = to_addr, amount = v, data = dat,
                        executed = False, numConfirmations = 0,
                        isConfirmedByCurrentAccount = False\<rparr> # transactions state\<rparr>))"
| "reducer toBN state (UPDATE_TX account idx owner is_executed confirmed) =
     Inr (state\<lparr>transactions :=
                  map (update_tx account (parseInt idx) owner is_executed confirmed)
                    (transactions state)\<rparr>)"

subsection \<open>The updater: from contract events to actions\<close>

text \<open>
  The events of the wallet contract with their \<^verbatim>\<open>returnValues\<close>:
  \<^verbatim>\<open>Deposit sender amount balance\<close>, \<^verbatim>\<open>SubmitTransaction owner txIndex to value data\<close>,
  and \<^verbatim>\<open>owner txIndex\<close> for the other three. Any other event name is only printed.
\<close>

datatype log =
    Deposit string string string
  | SubmitTransaction string string string string string
  | ConfirmTransaction string string
  | RevokeConfirmation string string
  | ExecuteTransaction string string
  | OtherEvent string

text \<open>
  The \<^verbatim>\<open>switch\<close> of the subscription callback: the action that is dispatched for a log,
  for the viewer \<open>account\<close> of the \<^verbatim>\<open>Web3\<close> context; \<open>None\<close> when nothing is dispatched.
\<close>

fun log_action :: "string \<Rightarrow> log \<Rightarrow> 'bn Action option" where
  "log_action account (Deposit sender amt bal) = Some (UPDATE_BALANCE bal)"
| "log_action account (SubmitTransaction owner idx to_addr val dat) =
     Some (ADD_TX idx to_addr val dat)"
| "log_action account (ConfirmTransaction owner idx) =
     Some (UPDATE_TX account idx owner None (Some True))"
| "log_action account (RevokeConfirmation owner idx) =
     Some (UPDATE_TX account idx owner None (Some False))"
| "log_action account (ExecuteTransaction owner idx) =
     Some (UPDATE_TX account idx owner (Some True) None)"
| "log_action account (OtherEvent name) = None"

text \<open>
  One call of the subscription callback \<^verbatim>\<open>(error, log) => ...\<close> on the state: an error
  is printed and nothing is dispatched; a log is dispatched as above.
\<close>

fun on_event ::
  "(string \<Rightarrow> 'e + 'bn) \<Rightarrow> string \<Rightarrow> 'bn State \<Rightarrow> 'x option \<Rightarrow> log option \<Rightarrow> 'e + 'bn State" where
  "on_event toBN account state (Some err) l = Inr state"
| "on_event toBN account state None None = Inr state"
| "on_event toBN account state None (Some l) =
     (case log_action account l of
        None \<Rightarrow> Inr state
      | Some a \<Rightarrow> reducer toBN state a)"

text \<open>The fold of one notification into the state.\<close>

definition fold_log :: "(string \<Rightarrow> 'e + 'bn) \<Rightarrow> string \<Rightarrow> 'bn State \<Rightarrow> log \<Rightarrow> 'e + 'bn State" where
  "fold_log toBN account state l = on_event toBN account state (None :: unit option) (Some l)"

text \<open>
  A replay of a sequence of notifications from a snapshot, as a relation between the
  snapshot, the sequence and the outcome: the notifications are folded one at a time, in
  order, each into the state the previous one left, and an exception ends the replay.
\<close>

inductive replays ::
  "(string \<Rightarrow> 'e + 'bn) \<Rightarrow> string \<Rightarrow> 'bn State \<Rightarrow> log list \<Rightarrow> 'e + 'bn State \<Rightarrow> bool"
  for toBN :: "string \<Rightarrow> 'e + 'bn" and account :: string where
  replays_Nil: "replays toBN account state [] (Inr state)"
| replays_throw:
    "fold_log toBN account state l = Inl e \<Longrightarrow> replays toBN account state (l # ls) (Inl e)"
| replays_Cons:
    "fold_log toBN account state l = Inr state' \<Longrightarrow> replays toBN account state' ls r \<Longrightarrow>
     replays toBN account state (l # ls) r"

text \<open>
  What a state holds apart from the flags of the viewer: the state with
  \<^verbatim>\<open>isConfirmedByCurrentAccount\<close> put to false in every record. Two states with the same
  image differ in those flags at most.
\<close>

definition forget_flags :: "'bn State \<Rightarrow> 'bn State" where
  "forget_flags s =
     s\<lparr>transactions :=
         map (\<lambda>tx. tx\<lparr>isConfirmedByCurrentAccount := False\<rparr>) (transactions s)\<rparr>"

text \<open>
  An instance of the conversion for the closed examples: it accepts the numerals that
  \<open>parseInt\<close> reads and throws on every other string.
\<close>

definition toBN_example :: "string \<Rightarrow> string + int" where
  "toBN_example v =
     (case parseInt v of NaN \<Rightarrow> Inl ''invalid number value'' | Num n \<Rightarrow> Inr n)"

subsection \<open>\<^verbatim>\<open>unlockAccount\<close>\<close>

text \<open>
  The injected provider \<^verbatim>\<open>window.ethereum\<close>, as far as \<^verbatim>\<open>unlockAccount\<close> uses it: the
  outcome of \<^verbatim>\<open>ethereum.enable()\<close> and of \<^verbatim>\<open>web3.eth.getAccounts()\<close>, each either
  rejected with a value of the provider (\<open>Inl\<close>) or resolved. A missing provider (a
  falsy \<^verbatim>\<open>window.ethereum\<close>) is \<open>None\<close>.
\<close>

record 'e provider =
  enable :: "'e + unit"
  getAccounts :: "'e + string list"

text \<open>
  What \<^verbatim>\<open>unlockAccount\<close> can throw: its own \<^verbatim>\<open>new Error(message)\<close>, or the rejection
  of an awaited call of the provider, which it does not catch.
\<close>

datatype 'e thrown = Error string | Rejected 'e

text \<open>
  The result pairs the \<^verbatim>\<open>Web3\<close> instance, which wraps the provider, with
  \<^verbatim>\<open>accounts[0] || ""\<close>: the first account unless it is missing or falsy (the empty
  string).
\<close>

definition unlockAccount :: "'e provider option \<Rightarrow> 'e thrown + 'e provider \<times> string" where
  "unlockAccount ethereum =
     (case ethereum of
        None \<Rightarrow> Inl (Error ''Web3 not found'')
      | Some p \<Rightarrow>
          (case enable p of
             Inl e \<Rightarrow> Inl (Rejected e)
           | Inr _ \<Rightarrow>
               (case getAccounts p of
                  Inl e \<Rightarrow> Inl (Rejected e)
                | Inr accounts \<Rightarrow>
                    Inr (p, case accounts of
                              [] \<Rightarrow> ''''
                            | a # _ \<Rightarrow> if a = '''' then '''' else a))))"

subsection \<open>The polling subscriptions\<close>

text \<open>
  \<^verbatim>\<open>subscribeToAccount\<close> and \<^verbatim>\<open>subscribeToNetId\<close> start an interval timer whose handler
  is an \<^verbatim>\<open>async\<close> function: it sends a request, and calls the callback only when the
  request has settled. The state of a subscription is therefore whether the timer is
  still set, how many requests are in flight, and the calls of the callback so far (the
  pair of its two arguments; \<open>None\<close> is \<^verbatim>\<open>null\<close> or \<^verbatim>\<open>undefined\<close>). The callback
  itself is taken not to throw.
\<close>

record ('e, 'v) subscription =
  timer_set :: bool
  in_flight :: nat
  calls :: "('e option \<times> 'v option) list"

text \<open>
  What can happen to a subscription: the timer fires, a request in flight settles
  (rejected or resolved), or the returned function is called, which clears the timer.
\<close>

datatype ('e, 'r) event = TimerFires | RequestSettles "'e + 'r" | Unsubscribe

definition subscribed :: "('e, 'v) subscription" where
  "subscribed = \<lparr>timer_set = True, in_flight = 0, calls = []\<rparr>"

text \<open>
  One event. The handler passes \<open>pick r\<close> of a resolved request to the callback:
  \<^verbatim>\<open>accounts[0]\<close> for the accounts, the number itself for the network.
\<close>

fun poll_step ::
  "('r \<Rightarrow> 'v option) \<Rightarrow> ('e, 'v) subscription \<Rightarrow> ('e, 'r) event \<Rightarrow> ('e, 'v) subscription" where
  "poll_step pick s TimerFires =
     (if timer_set s then s\<lparr>in_flight := in_flight s + 1\<rparr> else s)"
| "poll_step pick s (RequestSettles outcome) =
     (if in_flight s = 0 then s
      else s\<lparr>in_flight := in_flight s - 1,
             calls := calls s @
               [case outcome of Inr r \<Rightarrow> (None, pick r) | Inl err \<Rightarrow> (Some err, None)]\<rparr>)"
| "poll_step pick s Unsubscribe = s\<lparr>timer_set := False\<rparr>"

definition first_account :: "string list \<Rightarrow> string option" where
  "first_account accounts = (case accounts of [] \<Rightarrow> None | a # _ \<Rightarrow> Some a)"

definition subscribeToAccount_step ::
  "('e, string) subscription \<Rightarrow> ('e, string list) event \<Rightarrow> ('e, string) subscription" where
  "subscribeToAccount_step = poll_step first_account"

definition subscribeToNetId_step ::
  "('e, int) subscription \<Rightarrow> ('e, int) event \<Rightarrow> ('e, int) subscription" where
  "subscribeToNetId_step = poll_step Some"

section \<open>Properties\<close>

subsection \<open>How each event is folded\<close>

lemma fold_log_Deposit:
  "fold_log toBN account s (Deposit sender amt bal) = Inr (s\<lparr>balance := bal\<rparr>)"
  by (simp add: fold_log_def)

lemma fold_log_Submit:
  "fold_log toBN account s (SubmitTransaction owner idx to_addr val dat) =
     reducer toBN s (ADD_TX idx to_addr val dat)"
  by (simp add: fold_log_def)

lemma fold_log_Confirm:
  "fold_log toBN account s (ConfirmTransaction owner idx) =
     Inr (s\<lparr>transactions :=
               map (update_tx account (parseInt idx) owner None (Some True)) (transactions s)\<rparr>)"
  by (simp add: fold_log_def)

lemma fold_log_Revoke:
  "fold_log toBN account s (RevokeConfirmation owner idx) =
     Inr (s\<lparr>transactions :=
               map (update_tx account (parseInt idx) owner None (Some False)) (transactions s)\<rparr>)"
  by (simp add: fold_log_def)

lemma fold_log_Execute:
  "fold_log toBN account s (ExecuteTransaction owner idx) =
     Inr (s\<lparr>transactions :=
               map (update_tx account (parseInt idx) owner (Some True) None) (transactions s)\<rparr>)"
  by (simp add: fold_log_def)

lemma update_tx_other:
  "\<not> strict_eq (txIndex tx) idx \<Longrightarrow> update_tx account idx owner ex cf tx = tx"
  by (simp add: update_tx_def)

lemma update_tx_confirm:
  "strict_eq (txIndex tx) idx \<Longrightarrow>
   update_tx account idx owner None (Some True) tx =
     tx\<lparr>numConfirmations := numConfirmations tx + 1,
        isConfirmedByCurrentAccount := (owner = account)\<rparr>"
  by (simp add: update_tx_def)

lemma update_tx_revoke:
  "strict_eq (txIndex tx) idx \<Longrightarrow>
   update_tx account idx owner None (Some False) tx =
     (if owner = account
      then tx\<lparr>numConfirmations := numConfirmations tx - 1, isConfirmedByCurrentAccount := False\<rparr>
      else tx\<lparr>numConfirmations := numConfirmations tx - 1\<rparr>)"
  by (simp add: update_tx_def Let_def)

lemma update_tx_execute:
  "strict_eq (txIndex tx) idx \<Longrightarrow>
   update_tx account idx owner (Some True) None tx = tx\<lparr>executed := True\<rparr>"
  by (simp add: update_tx_def)

lemma parseInt_0: "parseInt ''0'' = Num 0"
  by code_simp

lemma parseInt_7: "parseInt ''7'' = Num 7"
  by code_simp

lemma toBN_example_5: "toBN_example ''5'' = Inr 5"
  by code_simp

subsection \<open>Confirmations\<close>

text \<open>
  C1. A Confirm notification of owner \<open>o\<close> for a record the projection holds should add
  one to the count of the record and set the flag of the viewer only when \<open>o\<close> is the
  viewer, leaving a flag that is already set alone when \<open>o\<close> is someone else. The
  reducer does add one, but it assigns \<^verbatim>\<open>data.owner === data.account\<close> to the flag, so
  the confirmation of another owner clears it; the revoke branch beside it touches the
  flag only under \<^verbatim>\<open>if (data.owner === data.account)\<close>. Here the viewer \<^verbatim>\<open>0xA\<close> has
  confirmed transaction 0, and owner \<^verbatim>\<open>0xB\<close> confirms it too: the count goes from 1 to
  2 and the flag of \<^verbatim>\<open>0xA\<close> from true to false.
\<close>

theorem confirm_by_other_owner_clears_flag:
  "fold_log toBN_example ''0xA''
     (INITIAL_STATE\<lparr>transactions :=
        [\<lparr>txIndex = Num 0, to = ''0xD'', amount = 5, data = ''0x'', executed = False,
          numConfirmations = 1, isConfirmedByCurrentAccount = True\<rparr>]\<rparr>)
     (ConfirmTransaction ''0xB'' ''0'') =
   Inr (INITIAL_STATE\<lparr>transactions :=
        [\<lparr>txIndex = Num 0, to = ''0xD'', amount = 5, data = ''0x'', executed = False,
          numConfirmations = 2, isConfirmedByCurrentAccount = False\<rparr>]\<rparr>)"
  by (simp add: fold_log_Confirm parseInt_0 update_tx_confirm INITIAL_STATE_def)

text \<open>
  C6. Confirm and then Revoke by the same owner, for a pending record the projection
  holds at position \<open>k\<close>: both folds return a state, the count of the record is back at
  its value before the confirmation, and for the viewer who is that owner the flag is
  false.
\<close>

theorem confirm_then_revoke:
  assumes "k < length (transactions s)"
    and "strict_eq (txIndex (transactions s ! k)) (parseInt idx)"
    and "\<not> executed (transactions s ! k)"
  shows "\<exists>s1 s2.
           fold_log toBN account s (ConfirmTransaction owner idx) = Inr s1 \<and>
           fold_log toBN account s1 (RevokeConfirmation owner idx) = Inr s2 \<and>
           numConfirmations (transactions s2 ! k) = numConfirmations (transactions s ! k) \<and>
           (account = owner \<longrightarrow> \<not> isConfirmedByCurrentAccount (transactions s2 ! k))"
  using assms(1,2)
  by (simp add: fold_log_Confirm fold_log_Revoke update_tx_confirm update_tx_revoke)

theorem confirm_then_revoke_witness:
  "strict_eq (Num 0) (parseInt ''0'') \<and>
   (\<exists>s1 s2.
      fold_log toBN_example ''0xA''
        (INITIAL_STATE\<lparr>transactions :=
          [\<lparr>txIndex = Num 0, to = ''0xD'', amount = 5, data = ''0x'', executed = False,
            numConfirmations = 1, isConfirmedByCurrentAccount = False\<rparr>]\<rparr>)
        (ConfirmTransaction ''0xA'' ''0'') = Inr s1 \<and>
      fold_log toBN_example ''0xA'' s1 (RevokeConfirmation ''0xA'' ''0'') = Inr s2 \<and>
      numConfirmations (transactions s2 ! 0) = 1 \<and>
      \<not> isConfirmedByCurrentAccount (transactions s2 ! 0))"
  using confirm_then_revoke
    [where k = 0 and owner = "''0xA''" and idx = "''0''" and toBN = toBN_example
       and account = "''0xA''"
       and s = "INITIAL_STATE\<lparr>transactions :=
          [\<lparr>txIndex = Num 0, to = ''0xD'', amount = 5, data = ''0x'', executed = False,
            numConfirmations = 1, isConfirmedByCurrentAccount = False\<rparr>]\<rparr>"]
  by (simp add: parseInt_0)

text \<open>
  C9. The count is not clamped at zero: a Revoke notification for a pending record whose
  count is 0 leaves the record with the count \<open>- 1\<close>.
\<close>

theorem revoke_at_zero_goes_negative:
  assumes "k < length (transactions s)"
    and "strict_eq (txIndex (transactions s ! k)) (parseInt idx)"
    and "\<not> executed (transactions s ! k)"
    and "numConfirmations (transactions s ! k) = 0"
  shows "\<exists>s'. fold_log toBN account s (RevokeConfirmation owner idx) = Inr s' \<and>
           numConfirmations (transactions s' ! k) = - 1"
  using assms(1,2,4) by (simp add: fold_log_Revoke update_tx_revoke)

theorem revoke_at_zero_goes_negative_witness:
  "strict_eq (Num 0) (parseInt ''0'') \<and>
   (\<exists>s'. fold_log toBN_example ''0xA''
        (INITIAL_STATE\<lparr>transactions :=
          [\<lparr>txIndex = Num 0, to = ''0xD'', amount = 5, data = ''0x'', executed = False,
            numConfirmations = 0, isConfirmedByCurrentAccount = False\<rparr>]\<rparr>)
        (RevokeConfirmation ''0xB'' ''0'') = Inr s' \<and>
      numConfirmations (transactions s' ! 0) = - 1)"
  using revoke_at_zero_goes_negative
    [where k = 0 and owner = "''0xB''" and idx = "''0''" and toBN = toBN_example
       and account = "''0xA''"
       and s = "INITIAL_STATE\<lparr>transactions :=
          [\<lparr>txIndex = Num 0, to = ''0xD'', amount = 5, data = ''0x'', executed = False,
            numConfirmations = 0, isConfirmedByCurrentAccount = False\<rparr>]\<rparr>"]
  by (simp add: parseInt_0)

subsection \<open>Notifications for a record that is missing or executed\<close>

text \<open>
  C2, as the reducer has it. A Confirm, Revoke or Execute notification whose index is the
  index of no record of the projection is skipped: the fold returns the state it was
  given, and no error. (\<^verbatim>\<open>UPDATE_TX\<close> maps over the records and has no branch for a
  record that is not found.)
\<close>

theorem missing_record_is_skipped:
  assumes "\<forall>tx \<in> set (transactions s). \<not> strict_eq (txIndex tx) (parseInt idx)"
    and "l = ConfirmTransaction owner idx \<or> l = RevokeConfirmation owner idx \<or>
         l = ExecuteTransaction owner idx"
  shows "fold_log toBN account s l = Inr s"
proof -
  have "map (update_tx account (parseInt idx) owner ex cf) (transactions s) = transactions s"
    for ex cf
    using assms(1) by (simp add: map_idI update_tx_other)
  with assms(2) show ?thesis
    by (auto simp: fold_log_Confirm fold_log_Revoke fold_log_Execute)
qed

theorem missing_record_is_skipped_witness:
  "\<not> strict_eq (Num 0) (parseInt ''7'') \<and>
   fold_log toBN_example ''0xA''
     (INITIAL_STATE\<lparr>transactions :=
        [\<lparr>txIndex = Num 0, to = ''0xD'', amount = 5, data = ''0x'', executed = False,
          numConfirmations = 1, isConfirmedByCurrentAccount = True\<rparr>]\<rparr>)
     (RevokeConfirmation ''0xB'' ''7'') =
   Inr (INITIAL_STATE\<lparr>transactions :=
        [\<lparr>txIndex = Num 0, to = ''0xD'', amount = 5, data = ''0x'', executed = False,
          numConfirmations = 1, isConfirmedByCurrentAccount = True\<rparr>]\<rparr>)"
  using missing_record_is_skipped
    [where owner = "''0xB''" and idx = "''7''" and toBN = toBN_example and account = "''0xA''"
       and l = "RevokeConfirmation ''0xB'' ''7''"
       and s = "INITIAL_STATE\<lparr>transactions :=
        [\<lparr>txIndex = Num 0, to = ''0xD'', amount = 5, data = ''0x'', executed = False,
          numConfirmations = 1, isConfirmedByCurrentAccount = True\<rparr>]\<rparr>"]
  by (simp add: parseInt_7)

text \<open>
  The claim as the specification words it asks for an error; a confirmation for
  transaction 7 folded into the empty initial state returns that state.
\<close>

theorem missing_record_no_error:
  "fold_log toBN_example ''0xA'' INITIAL_STATE (ConfirmTransaction ''0xB'' ''7'') =
     Inr INITIAL_STATE"
  by (simp add: fold_log_Confirm INITIAL_STATE_def)

text \<open>
  C3, as the reducer has it. For a record with \<open>executed = True\<close> that a notification is
  addressed to: an Execute notification leaves the record as it is; a Confirm or a Revoke
  notification leaves it executed, and changes its count by one as it does for a pending
  record. The reducer never assigns false to \<^verbatim>\<open>executed\<close>, and has no test of it.
\<close>

theorem executed_record_stays_executed:
  assumes "k < length (transactions s)"
    and "executed (transactions s ! k)"
    and "strict_eq (txIndex (transactions s ! k)) (parseInt idx)"
  shows "(\<exists>s'. fold_log toBN account s (ExecuteTransaction owner idx) = Inr s' \<and>
            transactions s' ! k = transactions s ! k) \<and>
         (\<exists>s'. fold_log toBN account s (ConfirmTransaction owner idx) = Inr s' \<and>
            executed (transactions s' ! k) \<and>
            numConfirmations (transactions s' ! k) = numConfirmations (transactions s ! k) + 1) \<and>
         (\<exists>s'. fold_log toBN account s (RevokeConfirmation owner idx) = Inr s' \<and>
            executed (transactions s' ! k) \<and>
            numConfirmations (transactions s' ! k) = numConfirmations (transactions s ! k) - 1)"
proof (intro conjI)
  have "update_tx account (parseInt idx) owner (Some True) None (transactions s ! k) =
      transactions s ! k"
    using assms(2,3) by (simp add: update_tx_execute)
  with assms(1)
  show "\<exists>s'. fold_log toBN account s (ExecuteTransaction owner idx) = Inr s' \<and>
      transactions s' ! k = transactions s ! k"
    by (simp add: fold_log_Execute)
next
  from assms
  show "\<exists>s'. fold_log toBN account s (ConfirmTransaction owner idx) = Inr s' \<and>
      executed (transactions s' ! k) \<and>
      numConfirmations (transactions s' ! k) = numConfirmations (transactions s ! k) + 1"
    by (simp add: fold_log_Confirm update_tx_confirm)
next
  from assms
  show "\<exists>s'. fold_log toBN account s (RevokeConfirmation owner idx) = Inr s' \<and>
      executed (transactions s' ! k) \<and>
      numConfirmations (transactions s' ! k) = numConfirmations (transactions s ! k) - 1"
    by (simp add: fold_log_Revoke update_tx_revoke)
qed

theorem executed_record_stays_executed_witness:
  "strict_eq (Num 0) (parseInt ''0'') \<and>
   (\<exists>s'. fold_log toBN_example ''0xA''
       (INITIAL_STATE\<lparr>transactions :=
          [\<lparr>txIndex = Num 0, to = ''0xD'', amount = 5, data = ''0x'', executed = True,
            numConfirmations = 2, isConfirmedByCurrentAccount = True\<rparr>]\<rparr>)
       (ExecuteTransaction ''0xB'' ''0'') = Inr s' \<and>
     transactions s' ! 0 =
       \<lparr>txIndex = Num 0, to = ''0xD'', amount = 5, data = ''0x'', executed = True,
        numConfirmations = 2, isConfirmedByCurrentAccount = True\<rparr>) \<and>
   (\<exists>s'. fold_log toBN_example ''0xA''
       (INITIAL_STATE\<lparr>transactions :=
          [\<lparr>txIndex = Num 0, to = ''0xD'', amount = 5, data = ''0x'', executed = True,
            numConfirmations = 2, isConfirmedByCurrentAccount = True\<rparr>]\<rparr>)
       (RevokeConfirmation ''0xB'' ''0'') = Inr s' \<and>
     executed (transactions s' ! 0) \<and> numConfirmations (transactions s' ! 0) = 1)"
  using executed_record_stays_executed
    [where k = 0 and owner = "''0xB''" and idx = "''0''" and toBN = toBN_example
       and account = "''0xA''"
       and s = "INITIAL_STATE\<lparr>transactions :=
          [\<lparr>txIndex = Num 0, to = ''0xD'', amount = 5, data = ''0x'', executed = True,
            numConfirmations = 2, isConfirmedByCurrentAccount = True\<rparr>]\<rparr>"]
  by (simp add: parseInt_0)

text \<open>
  The claim as the specification words it freezes an executed record; a confirmation
  folded for an executed record with two confirmations gives it a third, and sets the
  flag of the viewer who confirmed.
\<close>

theorem executed_record_gains_confirmation:
  "fold_log toBN_example ''0xA''
     (INITIAL_STATE\<lparr>transactions :=
        [\<lparr>txIndex = Num 0, to = ''0xD'', amount = 5, data = ''0x'', executed = True,
          numConfirmations = 2, isConfirmedByCurrentAccount = False\<rparr>]\<rparr>)
     (ConfirmTransaction ''0xA'' ''0'') =
   Inr (INITIAL_STATE\<lparr>transactions :=
        [\<lparr>txIndex = Num 0, to = ''0xD'', amount = 5, data = ''0x'', executed = True,
          numConfirmations = 3, isConfirmedByCurrentAccount = True\<rparr>]\<rparr>)"
  by (simp add: fold_log_Confirm parseInt_0 update_tx_confirm INITIAL_STATE_def)

subsection \<open>Deposits and submissions\<close>

text \<open>
  C4. A Deposit notification replaces the balance by the total the notification carries:
  whatever the balance was before, the result is the state with the new total, and the
  deposited amount plays no part.
\<close>

theorem deposit_replaces_balance:
  "fold_log toBN account (s\<lparr>balance := prior\<rparr>) (Deposit sender amt newBalance) =
     Inr (s\<lparr>balance := newBalance\<rparr>)"
  by (simp add: fold_log_Deposit)

theorem deposit_replaces_balance_witness:
  "fold_log toBN_example ''0xA'' (INITIAL_STATE\<lparr>balance := ''40''\<rparr>) (Deposit ''0xB'' ''2'' ''42'') =
     Inr (INITIAL_STATE\<lparr>balance := ''42''\<rparr>)"
  by (rule deposit_replaces_balance)

text \<open>
  C5. A Submit notification, whose amount the conversion accepts (as it does the decimal
  numeral of every amount the contract emits), puts exactly one new record in front of
  the transactions: its index is \<open>parseInt\<close> of the index field, its count is 0, it is
  neither executed nor confirmed by the viewer; and the transaction count grows by one.
\<close>

theorem submit_prepends_record:
  assumes "toBN val = Inr v"
  shows "fold_log toBN account s (SubmitTransaction owner idx to_addr val dat) =
     Inr (s\<lparr>transactionCount := transactionCount s + 1,
            transactions :=
              \<lparr>txIndex = parseInt idx, to = to_addr, amount = v, data = dat, executed = False,
               numConfirmations = 0, isConfirmedByCurrentAccount = False\<rparr> # transactions s\<rparr>)"
  using assms by (simp add: fold_log_Submit)

theorem submit_prepends_record_witness:
  "toBN_example ''5'' = Inr 5 \<and>
   fold_log toBN_example ''0xA'' INITIAL_STATE
     (SubmitTransaction ''0xB'' ''0'' ''0xD'' ''5'' ''0x0123'') =
     Inr \<lparr>address = '''', balance = ''0'', owners = [], numConfirmationsRequired = 0,
          transactionCount = 1,
          transactions =
            [\<lparr>txIndex = Num 0, to = ''0xD'', amount = 5, data = ''0x0123'', executed = False,
              numConfirmations = 0, isConfirmedByCurrentAccount = False\<rparr>]\<rparr>"
  using submit_prepends_record
    [where toBN = toBN_example and val = "''5''" and v = 5 and account = "''0xA''"
       and s = INITIAL_STATE and owner = "''0xB''" and idx = "''0''" and to_addr = "''0xD''"
       and dat = "''0x0123''"]
  by (simp add: toBN_example_5 parseInt_0 INITIAL_STATE_def)

subsection \<open>Replaying a sequence of notifications\<close>

inductive_cases replays_NilE: "replays toBN account s [] r"

inductive_cases replays_ConsE: "replays toBN account s (l # ls) r"

lemma replays_total: "\<exists>r. replays toBN account s ls r"
proof (induction ls arbitrary: s)
  case Nil
  show ?case by (blast intro: replays_Nil)
next
  case (Cons l ls)
  show ?case
  proof (cases "fold_log toBN account s l")
    case (Inl e)
    then show ?thesis by (blast intro: replays_throw)
  next
    case (Inr s')
    from Cons.IH [of s'] obtain r where "replays toBN account s' ls r" ..
    with Inr show ?thesis by (blast intro: replays_Cons)
  qed
qed

lemma replays_unique:
  "replays toBN account s ls r1 \<Longrightarrow> replays toBN account s ls r2 \<Longrightarrow> r1 = r2"
proof (induction arbitrary: r2 rule: replays.induct)
  case (replays_Nil state)
  then show ?case by (auto elim: replays_NilE)
next
  case (replays_throw state l e ls)
  from replays_throw.prems replays_throw.hyps show ?case
    by (auto elim: replays_ConsE)
next
  case (replays_Cons state l state' ls r)
  from replays_Cons.prems replays_Cons.hyps(1) have "replays toBN account state' ls r2"
    by (auto elim: replays_ConsE)
  then show ?case by (rule replays_Cons.IH)
qed

lemma forget_flags_eq_iff:
  "forget_flags s1 = forget_flags s2 \<longleftrightarrow>
     address s1 = address s2 \<and> balance s1 = balance s2 \<and> owners s1 = owners s2 \<and>
     numConfirmationsRequired s1 = numConfirmationsRequired s2 \<and>
     transactionCount s1 = transactionCount s2 \<and>
     map (\<lambda>tx. tx\<lparr>isConfirmedByCurrentAccount := False\<rparr>) (transactions s1) =
     map (\<lambda>tx. tx\<lparr>isConfirmedByCurrentAccount := False\<rparr>) (transactions s2)"
  by (cases s1, cases s2) (auto simp: forget_flags_def)

text \<open>
  The viewer enters \<^verbatim>\<open>UPDATE_TX\<close> only through the flag: on two records that agree up to
  the flag, the callback for two viewers gives records that agree up to the flag.
\<close>

lemma update_tx_forget:
  assumes "tx1\<lparr>isConfirmedByCurrentAccount := False\<rparr> = tx2\<lparr>isConfirmedByCurrentAccount := False\<rparr>"
  shows "(update_tx a idx owner ex cf tx1)\<lparr>isConfirmedByCurrentAccount := False\<rparr> =
         (update_tx b idx owner ex cf tx2)\<lparr>isConfirmedByCurrentAccount := False\<rparr>"
  using assms
  by (cases tx1, cases tx2) (auto simp: update_tx_def Let_def split: option.splits bool.splits)

lemma map_update_tx_forget:
  "map (\<lambda>tx. tx\<lparr>isConfirmedByCurrentAccount := False\<rparr>) xs =
   map (\<lambda>tx. tx\<lparr>isConfirmedByCurrentAccount := False\<rparr>) ys \<Longrightarrow>
   map (\<lambda>tx. tx\<lparr>isConfirmedByCurrentAccount := False\<rparr>) (map (update_tx a idx owner ex cf) xs) =
   map (\<lambda>tx. tx\<lparr>isConfirmedByCurrentAccount := False\<rparr>) (map (update_tx b idx owner ex cf) ys)"
proof (induction xs arbitrary: ys)
  case Nil
  then show ?case by simp
next
  case (Cons x xs)
  then obtain y ys' where ys: "ys = y # ys'" by (cases ys) auto
  with Cons.prems have
    hd: "x\<lparr>isConfirmedByCurrentAccount := False\<rparr> = y\<lparr>isConfirmedByCurrentAccount := False\<rparr>"
    and tl: "map (\<lambda>tx. tx\<lparr>isConfirmedByCurrentAccount := False\<rparr>) xs =
             map (\<lambda>tx. tx\<lparr>isConfirmedByCurrentAccount := False\<rparr>) ys'"
    by simp_all
  from update_tx_forget [OF hd, of a idx owner ex cf b] Cons.IH [OF tl] ys
  show ?case by simp
qed

lemma fold_log_forget:
  assumes "forget_flags s1 = forget_flags s2"
  shows "map_sum id forget_flags (fold_log toBN a s1 l) =
         map_sum id forget_flags (fold_log toBN b s2 l)"
proof -
  from assms have eqs:
    "address s1 = address s2" "balance s1 = balance s2" "owners s1 = owners s2"
    "numConfirmationsRequired s1 = numConfirmationsRequired s2"
    "transactionCount s1 = transactionCount s2"
    "map (\<lambda>tx. tx\<lparr>isConfirmedByCurrentAccount := False\<rparr>) (transactions s1) =
     map (\<lambda>tx. tx\<lparr>isConfirmedByCurrentAccount := False\<rparr>) (transactions s2)"
    by (simp_all add: forget_flags_eq_iff)
  show ?thesis
  proof (cases l)
    case (Deposit sender amt bal)
    with eqs show ?thesis by (simp add: fold_log_def forget_flags_eq_iff)
  next
    case (SubmitTransaction owner idx to_addr val dat)
    with eqs show ?thesis
      by (cases "toBN val") (simp_all add: fold_log_def forget_flags_eq_iff)
  next
    case (ConfirmTransaction owner idx)
    with eqs map_update_tx_forget [OF eqs(6), of a "parseInt idx" owner None "Some True" b]
    show ?thesis by (simp add: fold_log_def forget_flags_eq_iff)
  next
    case (RevokeConfirmation owner idx)
    with eqs map_update_tx_forget [OF eqs(6), of a "parseInt idx" owner None "Some False" b]
    show ?thesis by (simp add: fold_log_def forget_flags_eq_iff)
  next
    case (ExecuteTransaction owner idx)
    with eqs map_update_tx_forget [OF eqs(6), of a "parseInt idx" owner "Some True" None b]
    show ?thesis by (simp add: fold_log_def forget_flags_eq_iff)
  next
    case (OtherEvent name)
    with assms show ?thesis by (simp add: fold_log_def)
  qed
qed

lemma replays_forget:
  "replays toBN a s1 ls r1 \<Longrightarrow> forget_flags s1 = forget_flags s2 \<Longrightarrow>
   replays toBN b s2 ls r2 \<Longrightarrow>
   map_sum id forget_flags r1 = map_sum id forget_flags r2"
proof (induction arbitrary: s2 r2 rule: replays.induct)
  case (replays_Nil state)
  then show ?case by (auto elim: replays_NilE)
next
  case (replays_throw state l e ls)
  from fold_log_forget [OF replays_throw.prems(1), of toBN a l b] replays_throw.hyps
  have "map_sum id forget_flags (fold_log toBN b s2 l) = Inl e" by simp
  then have "fold_log toBN b s2 l = Inl e" by (cases "fold_log toBN b s2 l") simp_all
  with replays_throw.prems(2) show ?case by (auto elim: replays_ConsE)
next
  case (replays_Cons state l state' ls r)
  from fold_log_forget [OF replays_Cons.prems(1), of toBN a l b] replays_Cons.hyps(1)
  have "map_sum id forget_flags (fold_log toBN b s2 l) = Inr (forget_flags state')" by simp
  then obtain s2' where step: "fold_log toBN b s2 l = Inr s2'"
    and eq: "forget_flags state' = forget_flags s2'"
    by (cases "fold_log toBN b s2 l") auto
  from replays_Cons.prems(2) step have "replays toBN b s2' ls r2"
    by (auto elim: replays_ConsE)
  with eq show ?case by (rule replays_Cons.IH)
qed

lemma replay_example:
  "replays toBN_example viewer
     (INITIAL_STATE\<lparr>transactions :=
        [\<lparr>txIndex = Num 0, to = ''0xD'', amount = 5, data = ''0x'', executed = False,
          numConfirmations = 0, isConfirmedByCurrentAccount = False\<rparr>]\<rparr>)
     [Deposit ''0xB'' ''2'' ''42'', ConfirmTransaction ''0xA'' ''0'']
     (Inr \<lparr>address = '''', balance = ''42'', owners = [], numConfirmationsRequired = 0,
          transactionCount = 0,
          transactions =
            [\<lparr>txIndex = Num 0, to = ''0xD'', amount = 5, data = ''0x'', executed = False,
              numConfirmations = 1, isConfirmedByCurrentAccount = (''0xA'' = viewer)\<rparr>]\<rparr>)"
proof -
  let ?s0 = "(INITIAL_STATE :: int State)\<lparr>transactions :=
        [\<lparr>txIndex = Num 0, to = ''0xD'', amount = 5, data = ''0x'', executed = False,
          numConfirmations = 0, isConfirmedByCurrentAccount = False\<rparr>]\<rparr>"
  let ?s2 = "\<lparr>address = '''', balance = ''42'', owners = [], numConfirmationsRequired = 0,
          transactionCount = 0,
          transactions =
            [\<lparr>txIndex = Num 0, to = ''0xD'', amount = 5 :: int, data = ''0x'', executed = False,
              numConfirmations = 1, isConfirmedByCurrentAccount = (''0xA'' = viewer)\<rparr>]\<rparr>"
  have 1: "fold_log toBN_example viewer ?s0 (Deposit ''0xB'' ''2'' ''42'') =
      Inr (?s0\<lparr>balance := ''42''\<rparr>)"
    by (simp add: fold_log_Deposit)
  have 2: "fold_log toBN_example viewer (?s0\<lparr>balance := ''42''\<rparr>)
      (ConfirmTransaction ''0xA'' ''0'') = Inr ?s2"
    by (simp add: fold_log_Confirm parseInt_0 update_tx_confirm INITIAL_STATE_def)
  show ?thesis
    by (rule replays_Cons [OF 1], rule replays_Cons [OF 2], rule replays_Nil)
qed

text \<open>
  C7, as the updater has it. The outcome of a replay is determined by the snapshot, the
  sequence of notifications and the viewer whose account the updater puts into each
  action: for one viewer every sequence has an outcome, and any two replays of it from
  the same snapshot have the same outcome; for two viewers the outcomes of the same
  sequence from the same snapshot agree up to the flags \<^verbatim>\<open>isConfirmedByCurrentAccount\<close>
  (both throw the same exception, or both return a state, and the two states differ in
  those flags at most).
\<close>

theorem replay_determined_up_to_viewer:
  "(\<exists>r. replays toBN account s ls r) \<and>
   (\<forall>r1 r2. replays toBN account s ls r1 \<longrightarrow> replays toBN account s ls r2 \<longrightarrow> r1 = r2) \<and>
   (\<forall>r1 r2. replays toBN account s ls r1 \<longrightarrow> replays toBN viewer s ls r2 \<longrightarrow>
      map_sum id forget_flags r1 = map_sum id forget_flags r2)"
proof (intro conjI allI impI)
  show "\<exists>r. replays toBN account s ls r" by (rule replays_total)
next
  fix r1 r2
  assume "replays toBN account s ls r1" and "replays toBN account s ls r2"
  then show "r1 = r2" by (rule replays_unique)
next
  fix r1 r2
  assume "replays toBN account s ls r1" and "replays toBN viewer s ls r2"
  from this(1) refl this(2)
  show "map_sum id forget_flags r1 = map_sum id forget_flags r2" by (rule replays_forget)
qed

theorem replay_determined_up_to_viewer_witness:
  "forget_flags
     \<lparr>address = '''', balance = ''42'', owners = [], numConfirmationsRequired = 0,
      transactionCount = 0,
      transactions =
        [\<lparr>txIndex = Num 0, to = ''0xD'', amount = 5 :: int, data = ''0x'', executed = False,
          numConfirmations = 1, isConfirmedByCurrentAccount = True\<rparr>]\<rparr> =
   forget_flags
     \<lparr>address = '''', balance = ''42'', owners = [], numConfirmationsRequired = 0,
      transactionCount = 0,
      transactions =
        [\<lparr>txIndex = Num 0, to = ''0xD'', amount = 5 :: int, data = ''0x'', executed = False,
          numConfirmations = 1, isConfirmedByCurrentAccount = False\<rparr>]\<rparr> \<and>
   \<not> replays toBN_example ''0xA''
     (INITIAL_STATE\<lparr>transactions :=
        [\<lparr>txIndex = Num 0, to = ''0xD'', amount = 5, data = ''0x'', executed = False,
          numConfirmations = 0, isConfirmedByCurrentAccount = False\<rparr>]\<rparr>)
     [Deposit ''0xB'' ''2'' ''42'', ConfirmTransaction ''0xA'' ''0'']
     (Inr INITIAL_STATE)"
proof -
  let ?s0 = "(INITIAL_STATE :: int State)\<lparr>transactions :=
        [\<lparr>txIndex = Num 0, to = ''0xD'', amount = 5, data = ''0x'', executed = False,
          numConfirmations = 0, isConfirmedByCurrentAccount = False\<rparr>]\<rparr>"
  let ?ls = "[Deposit ''0xB'' ''2'' ''42'', ConfirmTransaction ''0xA'' ''0'']"
  note det = replay_determined_up_to_viewer [of toBN_example "''0xA''" ?s0 ?ls "''0xB''"]
  from det replay_example [of "''0xA''"] replay_example [of "''0xB''"]
  have "map_sum id forget_flags
          (Inr \<lparr>address = '''', balance = ''42'', owners = [], numConfirmationsRequired = 0,
            transactionCount = 0,
            transactions =
              [\<lparr>txIndex = Num 0, to = ''0xD'', amount = 5 :: int, data = ''0x'',
                executed = False, numConfirmations = 1,
                isConfirmedByCurrentAccount = (''0xA'' = ''0xA'')\<rparr>]\<rparr> :: string + int State) =
        map_sum id forget_flags
          (Inr \<lparr>address = '''', balance = ''42'', owners = [], numConfirmationsRequired = 0,
            transactionCount = 0,
            transactions =
              [\<lparr>txIndex = Num 0, to = ''0xD'', amount = 5 :: int, data = ''0x'',
                executed = False, numConfirmations = 1,
                isConfirmedByCurrentAccount = (''0xA'' = ''0xB'')\<rparr>]\<rparr>)"
    by blast
  then have agree: "forget_flags
     \<lparr>address = '''', balance = ''42'', owners = [], numConfirmationsRequired = 0,
      transactionCount = 0,
      transactions =
        [\<lparr>txIndex = Num 0, to = ''0xD'', amount = 5 :: int, data = ''0x'', executed = False,
          numConfirmations = 1, isConfirmedByCurrentAccount = True\<rparr>]\<rparr> =
   forget_flags
     \<lparr>address = '''', balance = ''42'', owners = [], numConfirmationsRequired = 0,
      transactionCount = 0,
      transactions =
        [\<lparr>txIndex = Num 0, to = ''0xD'', amount = 5 :: int, data = ''0x'', executed = False,
          numConfirmations = 1, isConfirmedByCurrentAccount = False\<rparr>]\<rparr>"
    by simp
  have "\<not> replays toBN_example ''0xA'' ?s0 ?ls (Inr INITIAL_STATE)"
  proof
    assume "replays toBN_example ''0xA'' ?s0 ?ls (Inr INITIAL_STATE)"
    with det replay_example [of "''0xA''"]
    have "(Inr INITIAL_STATE :: string + int State) =
        Inr \<lparr>address = '''', balance = ''42'', owners = [], numConfirmationsRequired = 0,
            transactionCount = 0,
            transactions =
              [\<lparr>txIndex = Num 0, to = ''0xD'', amount = 5 :: int, data = ''0x'',
                executed = False, numConfirmations = 1,
                isConfirmedByCurrentAccount = (''0xA'' = ''0xA'')\<rparr>]\<rparr>"
      by blast
    then show False by (simp add: INITIAL_STATE_def)
  qed
  with agree show ?thesis by simp
qed

text \<open>
  The claim as the specification words it makes the outcome depend on the snapshot and the
  sequence only. The same snapshot and the same two notifications give the viewer
  \<^verbatim>\<open>0xA\<close>, who is the owner that confirms, a record with the flag set, and the viewer
  \<^verbatim>\<open>0xB\<close> the record without it.
\<close>

theorem replay_differs_between_viewers:
  "replays toBN_example ''0xA''
     (INITIAL_STATE\<lparr>transactions :=
        [\<lparr>txIndex = Num 0, to = ''0xD'', amount = 5, data = ''0x'', executed = False,
          numConfirmations = 0, isConfirmedByCurrentAccount = False\<rparr>]\<rparr>)
     [Deposit ''0xB'' ''2'' ''42'', ConfirmTransaction ''0xA'' ''0'']
     (Inr \<lparr>address = '''', balance = ''42'', owners = [], numConfirmationsRequired = 0,
          transactionCount = 0,
          transactions =
            [\<lparr>txIndex = Num 0, to = ''0xD'', amount = 5, data = ''0x'', executed = False,
              numConfirmations = 1, isConfirmedByCurrentAccount = True\<rparr>]\<rparr>) \<and>
   replays toBN_example ''0xB''
     (INITIAL_STATE\<lparr>transactions :=
        [\<lparr>txIndex = Num 0, to = ''0xD'', amount = 5, data = ''0x'', executed = False,
          numConfirmations = 0, isConfirmedByCurrentAccount = False\<rparr>]\<rparr>)
     [Deposit ''0xB'' ''2'' ''42'', ConfirmTransaction ''0xA'' ''0'']
     (Inr \<lparr>address = '''', balance = ''42'', owners = [], numConfirmationsRequired = 0,
          transactionCount = 0,
          transactions =
            [\<lparr>txIndex = Num 0, to = ''0xD'', amount = 5, data = ''0x'', executed = False,
              numConfirmations = 1, isConfirmedByCurrentAccount = False\<rparr>]\<rparr>)"
  using replay_example [of "''0xA''"] replay_example [of "''0xB''"] by simp

subsection \<open>The polling subscriptions\<close>

lemma poll_step_cleared:
  assumes "\<not> timer_set s"
  shows "\<not> timer_set (poll_step pick s e) \<and>
         length (calls (poll_step pick s e)) + in_flight (poll_step pick s e) =
           length (calls s) + in_flight s"
  using assms by (cases e) auto

lemma poll_run_cleared:
  "\<not> timer_set s \<Longrightarrow>
   length (calls (foldl (poll_step pick) s es)) + in_flight (foldl (poll_step pick) s es) =
     length (calls s) + in_flight s"
proof (induction es arbitrary: s)
  case Nil
  show ?case by simp
next
  case (Cons e es)
  from poll_step_cleared [OF Cons.prems, of pick e] Cons.IH [of "poll_step pick s e"]
  show ?case by simp
qed

text \<open>
  Once the timer is cleared no request starts any more, so the callback is called at
  most once for each request that was in flight when the subscription was cancelled.
\<close>

lemma calls_after_unsubscribe_bounded:
  "length (calls (foldl (poll_step pick) (poll_step pick s Unsubscribe) es)) \<le>
     length (calls s) + in_flight s"
  using poll_run_cleared [of "poll_step pick s Unsubscribe" pick es] by simp

text \<open>
  C8. After the function a subscription returned has been called, the callback should
  not be called again. \<^verbatim>\<open>clearInterval\<close> stops the timer, but a handler that is waiting
  for its request is not stopped: when the timer has fired, the subscription is cancelled
  and the request then settles, the callback is called after the cancellation, with the
  account (for \<^verbatim>\<open>subscribeToAccount\<close>) or the network (for \<^verbatim>\<open>subscribeToNetId\<close>). In
  both runs below no call has been made when the cancellation returns, and one call is
  made after it.
\<close>

theorem callback_after_unsubscribe:
  "calls (foldl subscribeToAccount_step (subscribed :: (string, string) subscription)
            [TimerFires, Unsubscribe]) = [] \<and>
   calls (foldl subscribeToAccount_step (subscribed :: (string, string) subscription)
            [TimerFires, Unsubscribe, RequestSettles (Inr [''0xA''])]) = [(None, Some ''0xA'')] \<and>
   calls (foldl subscribeToNetId_step (subscribed :: (string, int) subscription)
            [TimerFires, Unsubscribe]) = [] \<and>
   calls (foldl subscribeToNetId_step (subscribed :: (string, int) subscription)
            [TimerFires, Unsubscribe, RequestSettles (Inr 1)]) = [(None, Some 1)]"
  by (simp add: subscribeToAccount_step_def subscribeToNetId_step_def subscribed_def
      first_account_def)

subsection \<open>Unlocking the account\<close>

text \<open>
  C10, as the function has it. \<^verbatim>\<open>unlockAccount\<close> throws its error
  \<^verbatim>\<open>Web3 not found\<close> exactly when there is no injected provider. With a provider whose
  two calls succeed it returns the first account, or the empty string when the list of
  accounts is empty; when the provider rejects the request for access or the request for
  the accounts, that rejection is what \<^verbatim>\<open>unlockAccount\<close> throws.
\<close>

theorem unlockAccount_outcomes:
  "(unlockAccount ethereum = Inl (Error ''Web3 not found'') \<longleftrightarrow> ethereum = None) \<and>
   (ethereum = Some p \<and> enable p = Inr () \<and> getAccounts p = Inr accounts \<longrightarrow>
      unlockAccount ethereum = Inr (p, case accounts of [] \<Rightarrow> '''' | a # _ \<Rightarrow> a)) \<and>
   (ethereum = Some p \<and> enable p = Inl e \<longrightarrow> unlockAccount ethereum = Inl (Rejected e)) \<and>
   (ethereum = Some p \<and> enable p = Inr () \<and> getAccounts p = Inl e \<longrightarrow>
      unlockAccount ethereum = Inl (Rejected e))"
  by (auto simp: unlockAccount_def split: option.splits sum.splits list.splits)

theorem unlockAccount_outcomes_witness:
  "unlockAccount (None :: string provider option) = Inl (Error ''Web3 not found'') \<and>
   unlockAccount (Some \<lparr>enable = Inr (), getAccounts = (Inr [''0xA'', ''0xB''] :: string + string list)\<rparr>) =
     Inr (\<lparr>enable = Inr (), getAccounts = Inr [''0xA'', ''0xB'']\<rparr>, ''0xA'') \<and>
   unlockAccount (Some \<lparr>enable = Inr (), getAccounts = (Inr [] :: string + string list)\<rparr>) =
     Inr (\<lparr>enable = Inr (), getAccounts = Inr []\<rparr>, '''')"
  using unlockAccount_outcomes [of "None :: string provider option"]
    unlockAccount_outcomes
      [of "Some \<lparr>enable = Inr (), getAccounts = (Inr [''0xA'', ''0xB''] :: string + string list)\<rparr>"
          "\<lparr>enable = Inr (), getAccounts = (Inr [''0xA'', ''0xB''] :: string + string list)\<rparr>"
          "[''0xA'', ''0xB'']"]
    unlockAccount_outcomes
      [of "Some \<lparr>enable = Inr (), getAccounts = (Inr [] :: string + string list)\<rparr>"
          "\<lparr>enable = Inr (), getAccounts = (Inr [] :: string + string list)\<rparr>" "[]"]
  by simp

text \<open>
  The claim as it is worded has \<^verbatim>\<open>unlockAccount\<close> return an account whenever a
  provider exists; with a provider that refuses access it throws the refusal.
\<close>

theorem unlockAccount_rejected:
  "unlockAccount (Some \<lparr>enable = Inl ''User denied account authorization'',
                        getAccounts = Inr [''0xA'']\<rparr>) =
     Inl (Rejected ''User denied account authorization'')"
  by (simp add: unlockAccount_def)

end
